theory Spec2Isabelle
  imports Complex_Main "HOL-Library.Word"
begin

unbundle bit_operations_syntax

section \<open>Colour (bardrix/color.cpp)\<close>

text \<open>
  A colour is the union \<open>c_union_\<close> of a packed \<open>unsigned int rgba\<close> and the struct
  \<open>r_g_b_a\<close> of four \<open>unsigned char\<close> channels. The record holds the four channels;
  \<open>rgba\<close> and \<open>color_of_rgba\<close> give the packed view of the same four bytes, byte 0
  (least significant) being red, byte 3 alpha.

  A finite \<open>double\<close> is modelled by the real number it denotes. In the colour
  operations every arithmetic operation on doubles and every decimal literal is rounded
  to binary64 (\<open>binary64\<close> below); in the lighting functions the arithmetic on doubles
  is taken as exact. NaN and the infinities are not real numbers: where the scalar of a
  multiplication is one of them, the operator is modelled apart
  (\<open>op_mul_assign_nonfinite\<close>).
\<close>

type_synonym uchar = "8 word"
type_synonym double = real

record color =
  col_r :: uchar
  col_g :: uchar
  col_b :: uchar
  col_a :: uchar

datatype error = invalid_argument string

definition UCHAR_MAX :: int where
  "UCHAR_MAX = 255"

text \<open>\<open>color::rgba()\<close>: the packed member of the union.\<close>

definition rgba :: "color \<Rightarrow> 32 word" where
  "rgba c = ucast (col_r c) OR push_bit 8 (ucast (col_g c))
              OR push_bit 16 (ucast (col_b c)) OR push_bit 24 (ucast (col_a c))"

text \<open>\<open>color::color(unsigned int rgba)\<close>.\<close>

definition color_of_rgba :: "32 word \<Rightarrow> color" where
  "color_of_rgba w = \<lparr>col_r = ucast w, col_g = ucast (drop_bit 8 w),
                      col_b = ucast (drop_bit 16 w), col_a = ucast (drop_bit 24 w)\<rparr>"

text \<open>\<open>color::operator~\<close>, \<open>color::inverted\<close> and \<open>color::invert\<close> (which assigns \<open>~*this\<close>).\<close>

definition op_not :: "color \<Rightarrow> color" where
  "op_not c = color_of_rgba (rgba c XOR 0x00FFFFFF)"

definition inverted :: "color \<Rightarrow> color" where
  "inverted c = op_not c"

definition invert :: "color \<Rightarrow> color" where
  "invert c = op_not c"

text \<open>
  \<open>operator+=\<close> and \<open>operator-=\<close> on two colours. The channels are promoted to \<open>int\<close>
  for the comparison and the sum, and the result is stored back into the channel.
\<close>

definition add_channel :: "uchar \<Rightarrow> uchar \<Rightarrow> uchar" where
  "add_channel x y =
     (if uint x \<le> UCHAR_MAX - uint y then word_of_int (uint x + uint y)
      else word_of_int UCHAR_MAX)"

definition sub_channel :: "uchar \<Rightarrow> uchar \<Rightarrow> uchar" where
  "sub_channel x y = (if uint x \<ge> uint y then word_of_int (uint x - uint y) else 0)"

definition op_add_assign :: "color \<Rightarrow> color \<Rightarrow> color" where
  "op_add_assign c other =
     \<lparr>col_r = add_channel (col_r c) (col_r other),
      col_g = add_channel (col_g c) (col_g other),
      col_b = add_channel (col_b c) (col_b other),
      col_a = add_channel (col_a c) (col_a other)\<rparr>"

definition op_add :: "color \<Rightarrow> color \<Rightarrow> color" where
  "op_add c other = op_add_assign c other"

definition op_sub_assign :: "color \<Rightarrow> color \<Rightarrow> color" where
  "op_sub_assign c other =
     \<lparr>col_r = sub_channel (col_r c) (col_r other),
      col_g = sub_channel (col_g c) (col_g other),
      col_b = sub_channel (col_b c) (col_b other),
      col_a = sub_channel (col_a c) (col_a other)\<rparr>"

definition op_sub :: "color \<Rightarrow> color \<Rightarrow> color" where
  "op_sub c other = op_sub_assign c other"

subsection \<open>Doubles and channels\<close>

text \<open>
  \<open>static_cast<uchar>\<close> of a double drops the fraction (truncation towards zero). A
  value outside 0..255 is undefined behaviour in C++; the model reduces it modulo 256.
\<close>

definition trunc :: "double \<Rightarrow> int" where
  "trunc x = (if 0 \<le> x then \<lfloor>x\<rfloor> else \<lceil>x\<rceil>)"

definition uchar_of_double :: "double \<Rightarrow> uchar" where
  "uchar_of_double x = word_of_int (trunc x)"

definition double_of_uchar :: "uchar \<Rightarrow> double" where
  "double_of_uchar x = of_int (uint x)"

text \<open>\<open>std::round\<close>: to the nearest integer, halfway cases away from zero.\<close>

definition std_round :: "double \<Rightarrow> double" where
  "std_round x = (if 0 \<le> x then of_int \<lfloor>x + 1 / 2\<rfloor> else - of_int \<lfloor>- x + 1 / 2\<rfloor>)"

text \<open>
  The result of a double operation is the exact result rounded to binary64: to the
  nearest multiple of the unit in the last place, halfway cases to the even multiple
  (the default rounding of IEEE 754, each operation rounded once). A normal double has
  53 significant bits, so for \<open>2^(k + 52) \<le> |x| < 2^(k + 53)\<close> the unit is \<open>2^k\<close>, with
  \<open>k\<close> from -1074 to 971; below the normal range (and at 0) the unit is \<open>2^(-1074)\<close>.
  Above the largest double the code has an infinity, which is not a value of the
  model: there the model keeps a real number of at least \<open>2^1024 - 1\<close>, which like the
  infinity exceeds \<open>UCHAR_MAX\<close>.
\<close>

definition round_even :: "real \<Rightarrow> int" where
  "round_even y =
     (let f = \<lfloor>y\<rfloor>; d = y - of_int f
      in if d < 1 / 2 then f else if 1 / 2 < d then f + 1 else if even f then f else f + 1)"

definition min_ulp_exponent :: int where
  "min_ulp_exponent = - 1074"

definition max_ulp_exponent :: int where
  "max_ulp_exponent = 971"

definition binary64_exponent :: "real \<Rightarrow> int" where
  "binary64_exponent x =
     (case find (\<lambda>k. 2 powi (k + 52) \<le> \<bar>x\<bar> \<and> \<bar>x\<bar> < 2 powi (k + 53))
             [min_ulp_exponent..max_ulp_exponent] of
        Some k \<Rightarrow> k
      | None \<Rightarrow> min_ulp_exponent)"

definition binary64 :: "real \<Rightarrow> double" where
  "binary64 x =
     (let ulp = 2 powi binary64_exponent x in of_int (round_even (x / ulp)) * ulp)"

text \<open>
  Modelled from the spec: the header \<open>bardrix.h\<close> with \<open>nearly_equal\<close> and
  \<open>less_than_or_nearly_equal\<close> is not under src/. The spec calls them tolerance-based
  "nearly" and "nearly/less-than" comparisons. \<open>nearly_equal\<close> is a parameter \<open>ne\<close> of
  every operation that calls one of them, and \<open>less_than_or_nearly_equal\<close> is
  less-than or \<open>ne\<close>.
\<close>

definition less_than_or_nearly_equal ::
    "(double \<Rightarrow> double \<Rightarrow> bool) \<Rightarrow> double \<Rightarrow> double \<Rightarrow> bool" where
  "less_than_or_nearly_equal ne x y = (x < y \<or> ne x y)"

text \<open>
  Modelled from the spec: \<open>nearly_equal\<close> of \<open>bardrix.h\<close> (not under src/) as a tolerance
  comparison with the tolerance \<open>epsilon\<close>, the instance of \<open>ne\<close> used where a concrete
  comparison is needed.
\<close>

definition nearly_equal :: "double \<Rightarrow> double \<Rightarrow> double \<Rightarrow> bool" where
  "nearly_equal epsilon x y = (\<bar>x - y\<bar> \<le> epsilon)"

text \<open>The machine epsilon of \<open>double\<close>, the tolerance taken in the concrete examples.\<close>

definition DBL_EPSILON :: double where
  "DBL_EPSILON = 1 / 2 ^ 52"

subsection \<open>Grayscale\<close>

text \<open>
  \<open>color::grayscale\<close> and \<open>color::grayscaled\<close> (a copy, then \<open>grayscale\<close>). The
  literals \<open>0.299\<close>, \<open>0.587\<close> and \<open>0.114\<close> are the doubles nearest to them; the three
  products and the two sums, from left to right, are each rounded to binary64; the
  channels convert to double exactly.
\<close>

definition grayscale :: "color \<Rightarrow> color" where
  "grayscale c =
     (let gray = uchar_of_double (std_round
            (binary64
               (binary64 (binary64 (binary64 0.299 * double_of_uchar (col_r c))
                          + binary64 (binary64 0.587 * double_of_uchar (col_g c)))
                + binary64 (binary64 0.114 * double_of_uchar (col_b c)))))
      in c\<lparr>col_r := gray, col_g := gray, col_b := gray\<rparr>)"

definition grayscaled :: "color \<Rightarrow> color" where
  "grayscaled c = grayscale c"

text \<open>The weighted sum that \<open>grayscale\<close> rounds, as the code computes it, named for the proofs.\<close>

definition luma :: "color \<Rightarrow> double" where
  "luma c =
     binary64
       (binary64 (binary64 (binary64 0.299 * double_of_uchar (col_r c))
                  + binary64 (binary64 0.587 * double_of_uchar (col_g c)))
        + binary64 (binary64 0.114 * double_of_uchar (col_b c)))"

text \<open>The same weighted sum in exact arithmetic, with which the proofs compare \<open>luma\<close>.\<close>

definition exact_luma :: "color \<Rightarrow> real" where
  "exact_luma c = 0.299 * double_of_uchar (col_r c) + 0.587 * double_of_uchar (col_g c)
                    + 0.114 * double_of_uchar (col_b c)"

subsection \<open>Multiplication by a double\<close>

text \<open>
  \<open>operator*=\<close> for a finite scalar: when the scalar is less than or nearly equal to 0
  the union is set to \<open>{0, 0, 0, 0}\<close>; there is no \<open>return\<close> or \<open>else\<close>, so the four
  channel assignments follow in both cases. The channel converts to double exactly and
  the product is rounded to binary64.
\<close>

definition mul_channel :: "uchar \<Rightarrow> double \<Rightarrow> uchar" where
  "mul_channel x scalar =
     uchar_of_double (if binary64 (double_of_uchar x * scalar) \<le> of_int UCHAR_MAX
                      then binary64 (double_of_uchar x * scalar) else of_int UCHAR_MAX)"

definition op_mul_assign :: "(double \<Rightarrow> double \<Rightarrow> bool) \<Rightarrow> color \<Rightarrow> double \<Rightarrow> color" where
  "op_mul_assign ne c scalar =
     (let c0 = (if less_than_or_nearly_equal ne scalar 0
                then \<lparr>col_r = 0, col_g = 0, col_b = 0, col_a = 0\<rparr> else c)
      in \<lparr>col_r = mul_channel (col_r c0) scalar,
          col_g = mul_channel (col_g c0) scalar,
          col_b = mul_channel (col_b c0) scalar,
          col_a = mul_channel (col_a c0) scalar\<rparr>)"

definition op_mul :: "(double \<Rightarrow> double \<Rightarrow> bool) \<Rightarrow> color \<Rightarrow> double \<Rightarrow> color" where
  "op_mul ne c scalar = op_mul_assign ne c scalar"

definition op_mul_reflected :: "(double \<Rightarrow> double \<Rightarrow> bool) \<Rightarrow> double \<Rightarrow> color \<Rightarrow> color" where
  "op_mul_reflected ne scalar c = op_mul ne c scalar"

text \<open>
  \<open>operator*=\<close> for a scalar that is an infinity or NaN. The product of a channel and
  such a scalar is NaN when the scalar is NaN or the channel is 0, and otherwise the
  infinity itself. The comparison of NaN or of the positive infinity with \<open>UCHAR_MAX\<close>
  is false, so \<open>UCHAR_MAX\<close> is assigned; the negative infinity passes the comparison,
  and its conversion to \<open>unsigned char\<close> is undefined behaviour (\<open>None\<close>). In
  \<open>less_than_or_nearly_equal(scalar, 0)\<close> only the negative infinity is less than 0;
  \<open>nearly_equal(scalar, 0)\<close> is the parameter \<open>ne0\<close>.
\<close>

datatype nonfinite = Infinity | Minus_Infinity | NaN

definition mul_channel_nonfinite :: "uchar \<Rightarrow> nonfinite \<Rightarrow> uchar option" where
  "mul_channel_nonfinite x scalar =
     (if scalar = Minus_Infinity \<and> x \<noteq> 0 then None else Some (word_of_int UCHAR_MAX))"

definition op_mul_assign_nonfinite :: "(nonfinite \<Rightarrow> bool) \<Rightarrow> color \<Rightarrow> nonfinite \<Rightarrow> color option" where
  "op_mul_assign_nonfinite ne0 c scalar =
     (let c0 = (if scalar = Minus_Infinity \<or> ne0 scalar
                then \<lparr>col_r = 0, col_g = 0, col_b = 0, col_a = 0\<rparr> else c)
      in case (mul_channel_nonfinite (col_r c0) scalar, mul_channel_nonfinite (col_g c0) scalar,
               mul_channel_nonfinite (col_b c0) scalar, mul_channel_nonfinite (col_a c0) scalar) of
           (Some r', Some g', Some b', Some a') \<Rightarrow>
             Some \<lparr>col_r = r', col_g = g', col_b = b', col_a = a'\<rparr>
         | _ \<Rightarrow> None)"

text \<open>
  The channel of a product as the specification words it: \<open>min(255, round(channel * scalar))\<close>
  with the exact product and \<open>round\<close> rounding halfway cases away from zero.
\<close>

definition spec_mul_channel :: "uchar \<Rightarrow> double \<Rightarrow> double" where
  "spec_mul_channel x scalar = min 255 (std_round (double_of_uchar x * scalar))"

subsection \<open>Division and modulo\<close>

text \<open>
  An operator that assigns in place and may throw returns the exception, if any, and the
  state of the object when it returns or throws. The binary operators are \<open>const\<close> and
  return the exception or the new colour.

  The quotient is rounded to binary64. Dividing a double by zero gives an infinity or
  NaN, for which the comparison with \<open>UCHAR_MAX\<close> is false: that is the first test of
  \<open>div_channel\<close> and of \<open>div_channel_reflected\<close>. The first is reached only if
  \<open>nearly_equal(0, 0)\<close> is false, the second never, since a zero channel throws before.
\<close>

definition div_channel :: "uchar \<Rightarrow> double \<Rightarrow> uchar" where
  "div_channel x scalar =
     uchar_of_double (if scalar \<noteq> 0 \<and> binary64 (double_of_uchar x / scalar) \<le> of_int UCHAR_MAX
                      then binary64 (double_of_uchar x / scalar) else of_int UCHAR_MAX)"

definition div_channel_reflected :: "double \<Rightarrow> uchar \<Rightarrow> uchar" where
  "div_channel_reflected scalar x =
     uchar_of_double (if x \<noteq> 0 \<and> binary64 (scalar / double_of_uchar x) \<le> of_int UCHAR_MAX
                      then binary64 (scalar / double_of_uchar x) else of_int UCHAR_MAX)"

definition op_div_assign ::
    "(double \<Rightarrow> double \<Rightarrow> bool) \<Rightarrow> color \<Rightarrow> double \<Rightarrow> error option \<times> color" where
  "op_div_assign ne c scalar =
     (if ne scalar 0 then (Some (invalid_argument ''Division by zero''), c)
      else if scalar < 0 then (Some (invalid_argument ''Division by negative number''), c)
      else (None, \<lparr>col_r = div_channel (col_r c) scalar,
                   col_g = div_channel (col_g c) scalar,
                   col_b = div_channel (col_b c) scalar,
                   col_a = div_channel (col_a c) scalar\<rparr>))"

definition op_div :: "(double \<Rightarrow> double \<Rightarrow> bool) \<Rightarrow> color \<Rightarrow> double \<Rightarrow> error + color" where
  "op_div ne c scalar =
     (case op_div_assign ne c scalar of
        (Some e, _) \<Rightarrow> Inl e
      | (None, result) \<Rightarrow> Inr result)"

definition op_div_reflected :: "double \<Rightarrow> color \<Rightarrow> error + color" where
  "op_div_reflected scalar c =
     (if col_r c = 0 \<or> col_g c = 0 \<or> col_b c = 0 \<or> col_a c = 0
      then Inl (invalid_argument ''Division by zero'')
      else if scalar < 0 then Inl (invalid_argument ''Division by negative number'')
      else Inr \<lparr>col_r = div_channel_reflected scalar (col_r c),
                col_g = div_channel_reflected scalar (col_g c),
                col_b = div_channel_reflected scalar (col_b c),
                col_a = div_channel_reflected scalar (col_a c)\<rparr>)"

definition op_mod_assign :: "color \<Rightarrow> uchar \<Rightarrow> error option \<times> color" where
  "op_mod_assign c scalar =
     (if scalar = 0 then (Some (invalid_argument ''Division by zero''), c)
      else (None, \<lparr>col_r = col_r c mod scalar, col_g = col_g c mod scalar,
                   col_b = col_b c mod scalar, col_a = col_a c mod scalar\<rparr>))"

definition op_mod :: "color \<Rightarrow> uchar \<Rightarrow> error + color" where
  "op_mod c scalar =
     (if scalar = 0 then Inl (invalid_argument ''Division by zero'')
      else (case op_mod_assign c scalar of
              (Some e, _) \<Rightarrow> Inl e
            | (None, result) \<Rightarrow> Inr result))"

definition op_mod_reflected :: "uchar \<Rightarrow> color \<Rightarrow> error + color" where
  "op_mod_reflected scalar c =
     (if col_r c = 0 \<or> col_g c = 0 \<or> col_b c = 0 \<or> col_a c = 0
      then Inl (invalid_argument ''Division by zero'')
      else Inr \<lparr>col_r = scalar mod col_r c, col_g = scalar mod col_g c,
                col_b = scalar mod col_b c, col_a = scalar mod col_a c\<rparr>)"

section \<open>Materials and shapes (bardrix/objects.h)\<close>

text \<open>
  Modelled from the spec: \<open>color::white()\<close> is declared in \<open>color.h\<close>, which is not under
  src/; it is the default colour of a material, taken as opaque white.
\<close>

definition white :: color where
  "white = \<lparr>col_r = 255, col_g = 255, col_b = 255, col_a = 255\<rparr>"

text \<open>
  Modelled from the spec: \<open>color::green()\<close> is declared in \<open>color.h\<close>, which is not under
  src/; it is taken as opaque pure green, the colour (0, 255, 0).
\<close>

definition green :: color where
  "green = \<lparr>col_r = 0, col_g = 255, col_b = 0, col_a = 255\<rparr>"

text \<open>
  Modelled from the spec: \<open>color::argb()\<close> is declared in \<open>color.h\<close>, which is not under
  src/; by the spec it is the packed value in ARGB byte order, alpha most significant.
\<close>

definition argb :: "color \<Rightarrow> 32 word" where
  "argb c = push_bit 24 (ucast (col_a c)) OR push_bit 16 (ucast (col_r c))
              OR push_bit 8 (ucast (col_g c)) OR ucast (col_b c)"

text \<open>
  The class \<open>material\<close>: the public member \<open>color\<close> and the private coefficients
  \<open>ambient_\<close>, \<open>diffuse_\<close>, \<open>specular_\<close> and \<open>shininess_\<close>, whose getters are the
  record's selectors. \<open>material_default\<close> is the defaulted constructor with the member
  initialisers of the header.
\<close>

record material =
  material_color :: color
  get_ambient :: double
  get_diffuse :: double
  get_specular :: double
  get_shininess :: double

definition material_default :: material where
  "material_default =
     \<lparr>material_color = white, get_ambient = 0, get_diffuse = 1, get_specular = 0,
      get_shininess = 0\<rparr>"

text \<open>
  The setters and the two other constructors are declared in \<open>objects.h\<close> and defined
  in a file that is not under src/: they follow the spec and the header's comments.

  Modelled from the spec: the clamping of a coefficient to [0, 1] ("if less than 0, it
  will be set to 0; if greater than 1, it will be set to 1").
\<close>

definition clamp01 :: "double \<Rightarrow> double" where
  "clamp01 v = (if v < 0 then 0 else if v > 1 then 1 else v)"

text \<open>
  Modelled from the spec: \<open>material::set_ambient\<close>, not under src/, clamps the ambient
  coefficient to [0, 1].
\<close>

definition set_ambient :: "double \<Rightarrow> material \<Rightarrow> material" where
  "set_ambient ambient m = m\<lparr>get_ambient := clamp01 ambient\<rparr>"

text \<open>
  Modelled from the spec: \<open>material::set_diffuse\<close>, not under src/, clamps \<open>d\<close> to
  [0, 1] and stores diffuse = d and specular = 1 - d.
\<close>

definition set_diffuse :: "double \<Rightarrow> material \<Rightarrow> material" where
  "set_diffuse diffuse m =
     m\<lparr>get_diffuse := clamp01 diffuse, get_specular := 1 - clamp01 diffuse\<rparr>"

text \<open>
  Modelled from the spec: \<open>material::set_specular\<close>, not under src/, clamps \<open>s\<close> to
  [0, 1] and stores specular = s and diffuse = 1 - s.
\<close>

definition set_specular :: "double \<Rightarrow> material \<Rightarrow> material" where
  "set_specular specular m =
     m\<lparr>get_specular := clamp01 specular, get_diffuse := 1 - clamp01 specular\<rparr>"

text \<open>
  Modelled from the spec: \<open>material::set_shininess\<close>, not under src/, clamps the
  shininess to at least 0, without an upper bound.
\<close>

definition set_shininess :: "double \<Rightarrow> material \<Rightarrow> material" where
  "set_shininess shininess m =
     m\<lparr>get_shininess := (if shininess < 0 then 0 else shininess)\<rparr>"

text \<open>
  Modelled from the spec: the constructor \<open>material(ambient, diffuse, shininess)\<close>, not
  under src/: the default white colour, the coefficients as the setters store them, and
  specular derived as 1 - diffuse.
\<close>

definition material3 :: "double \<Rightarrow> double \<Rightarrow> double \<Rightarrow> material" where
  "material3 ambient diffuse shininess =
     set_shininess shininess (set_diffuse diffuse (set_ambient ambient material_default))"

text \<open>
  Modelled from the spec: the constructor \<open>material(color, ambient, diffuse, shininess)\<close>,
  not under src/: as the shorter constructor, with the given colour.
\<close>

definition material4 :: "color \<Rightarrow> double \<Rightarrow> double \<Rightarrow> double \<Rightarrow> material" where
  "material4 c ambient diffuse shininess =
     (material3 ambient diffuse shininess)\<lparr>material_color := c\<rparr>"

text \<open>
  Modelled from the spec: the geometry primitives (\<open>point3.h\<close>, \<open>vector3.h\<close>, \<open>ray.h\<close>,
  \<open>quaternion.h\<close>) are not under src/. A point and a vector are three doubles, and a
  ray is an origin and a normalised direction.
\<close>

record point3 =
  pt_x :: double
  pt_y :: double
  pt_z :: double

record vector3 =
  vec_x :: double
  vec_y :: double
  vec_z :: double

record ray =
  ray_position :: point3
  ray_direction :: vector3

text \<open>
  Modelled from the spec: \<open>point3::vector_to\<close>, not under src/, the vector from the
  point to the other point (subtraction of points).
\<close>

definition vector_to :: "point3 \<Rightarrow> point3 \<Rightarrow> vector3" where
  "vector_to p q = \<lparr>vec_x = pt_x q - pt_x p, vec_y = pt_y q - pt_y p, vec_z = pt_z q - pt_z p\<rparr>"

text \<open>Modelled from the spec: \<open>vector3::dot\<close>, not under src/, the dot product.\<close>

definition dot :: "vector3 \<Rightarrow> vector3 \<Rightarrow> double" where
  "dot u v = vec_x u * vec_x v + vec_y u * vec_y v + vec_z u * vec_z v"

text \<open>Modelled from the spec: scalar scaling of a vector, not under src/.\<close>

definition scaled :: "double \<Rightarrow> vector3 \<Rightarrow> vector3" where
  "scaled k v = \<lparr>vec_x = k * vec_x v, vec_y = k * vec_y v, vec_z = k * vec_z v\<rparr>"

text \<open>Modelled from the spec: the length of a vector, not under src/.\<close>

definition vec_length :: "vector3 \<Rightarrow> double" where
  "vec_length v = sqrt (dot v v)"

text \<open>
  Modelled from the spec: \<open>vector3::normalized\<close>, not under src/, the vector scaled to
  length 1. Normalising the zero vector divides by zero in doubles (NaN); here it gives
  the zero vector.
\<close>

definition normalized :: "vector3 \<Rightarrow> vector3" where
  "normalized v = scaled (1 / vec_length v) v"

text \<open>
  Modelled from the spec: \<open>quaternion::mirror\<close>, not under src/, the mirror reflection of
  a vector about a (unit) normal, that is, its rotation by a half turn around the normal.
\<close>

definition mirror :: "vector3 \<Rightarrow> vector3 \<Rightarrow> vector3" where
  "mirror v n =
     \<lparr>vec_x = 2 * dot v n * vec_x n - vec_x v,
      vec_y = 2 * dot v n * vec_y n - vec_y v,
      vec_z = 2 * dot v n * vec_z n - vec_z v\<rparr>"

text \<open>Modelled from the spec: the point of a ray at a parameter, origin + t * direction.\<close>

definition point_at :: "ray \<Rightarrow> double \<Rightarrow> point3" where
  "point_at ry t =
     \<lparr>pt_x = pt_x (ray_position ry) + t * vec_x (ray_direction ry),
      pt_y = pt_y (ray_position ry) + t * vec_y (ray_direction ry),
      pt_z = pt_z (ray_position ry) + t * vec_z (ray_direction ry)\<rparr>"

text \<open>
  The abstract class \<open>shape\<close>: an object is the record of its virtual member functions
  with its position and its material.
\<close>

record shape =
  get_position :: point3
  intersection :: "ray \<Rightarrow> point3 option"
  normal_at :: "point3 \<Rightarrow> vector3"
  get_material :: material

text \<open>
  Modelled from the spec: \<open>sphere::intersection\<close> (\<open>sphere.h\<close>, not under src/). By the
  spec, the intersection solves \<open>|O + tD - C|^2 = R^2\<close>, returns nothing when the
  discriminant is negative or both roots are negative, and otherwise the point at the
  smaller non-negative root.
\<close>

definition sphere_intersection :: "double \<Rightarrow> point3 \<Rightarrow> ray \<Rightarrow> point3 option" where
  "sphere_intersection radius center ry =
     (let oc = vector_to center (ray_position ry);
          qa = dot (ray_direction ry) (ray_direction ry);
          qb = 2 * dot oc (ray_direction ry);
          qc = dot oc oc - radius * radius;
          discriminant = qb * qb - 4 * qa * qc
      in if discriminant < 0 then None
         else let t1 = (- qb - sqrt discriminant) / (2 * qa);
                  t2 = (- qb + sqrt discriminant) / (2 * qa)
              in if 0 \<le> t1 then Some (point_at ry t1)
                 else if 0 \<le> t2 then Some (point_at ry t2)
                 else None)"

text \<open>
  Modelled from the spec: the class \<open>sphere\<close> (\<open>sphere.h\<close>, not under src/), a shape with
  a radius, a centre and a material, constructed as in \<open>main\<close>; the normal at a point is
  the normalised vector from the centre to the point.
\<close>

definition sphere :: "double \<Rightarrow> point3 \<Rightarrow> material \<Rightarrow> shape" where
  "sphere radius center m =
     \<lparr>get_position = center,
      intersection = sphere_intersection radius center,
      normal_at = (\<lambda>p. normalized (vector_to center p)),
      get_material = m\<rparr>"

text \<open>
  Modelled from the spec: \<open>light.h\<close> and \<open>camera.h\<close> are not under src/. A light is a
  position, an intensity and a colour; of the camera only the position is read here.
\<close>

record light =
  light_position :: point3
  light_intensity :: double
  light_color :: color

record camera =
  camera_position :: point3

text \<open>
  Modelled from the spec: \<open>light::inverse_square_law\<close>, not under src/, the attenuation
  at a point: the intensity divided by the squared distance to the light.
\<close>

definition inverse_square_law :: "light \<Rightarrow> point3 \<Rightarrow> double" where
  "inverse_square_law l p =
     light_intensity l
       / (vec_length (vector_to p (light_position l)) * vec_length (vector_to p (light_position l)))"

section \<open>Lighting and the paint callback (the program's main file)\<close>

text \<open>
  \<open>std::pow\<close> on finite values: an integral exponent gives the integer power, also of
  a negative base; otherwise the real power. For a negative base and a non-integral
  exponent \<open>std::pow\<close> returns NaN, and for base 0 and a negative exponent an infinity:
  neither is a value of the model, which has an unspecified real and 0 there.
\<close>

definition std_pow :: "double \<Rightarrow> double \<Rightarrow> double" where
  "std_pow base exponent =
     (if exponent = of_int \<lfloor>exponent\<rfloor> then base powi \<lfloor>exponent\<rfloor> else base powr exponent)"

definition calculate_light_intensity :: "shape \<Rightarrow> light \<Rightarrow> camera \<Rightarrow> point3 \<Rightarrow> double" where
  "calculate_light_intensity shp lgt cam intersection_point =
     (let light_intersection_vector =
            normalized (vector_to intersection_point (light_position lgt));
          angle = dot (normal_at shp intersection_point) light_intersection_vector
      in if angle < 0 then 0
         else
           let reflection = mirror light_intersection_vector (normal_at shp intersection_point);
               specular_angle =
                 dot reflection
                   (normalized (vector_to (camera_position cam) intersection_point));
               specular = std_pow specular_angle (get_shininess (get_material shp));
               intensity0 = get_ambient (get_material shp);
               intensity1 = intensity0 + get_diffuse (get_material shp) * angle;
               intensity2 = intensity1 + get_specular (get_material shp) * specular
           in min 1 (intensity2 * inverse_square_law lgt intersection_point))"

text \<open>
  The body of the pixel loop of \<open>window.on_paint\<close>, for the ray that \<open>camera.shoot_ray\<close>
  returned for the pixel. \<open>color::blended\<close> is declared in \<open>color.h\<close>, not under src/, and
  is the parameter \<open>blend\<close>. The loop over the lights carries \<open>intensity\<close> and
  \<open>color\<close>; the loop over the spheres carries \<open>color\<close>, which starts as
  \<open>color::green()\<close>; the pixel gets \<open>color.argb()\<close>.
\<close>

fun lights_loop ::
    "(double \<Rightarrow> double \<Rightarrow> bool) \<Rightarrow> (color \<Rightarrow> color \<Rightarrow> color) \<Rightarrow> camera \<Rightarrow> shape \<Rightarrow> point3
       \<Rightarrow> light list \<Rightarrow> double \<times> color \<Rightarrow> double \<times> color" where
  "lights_loop ne blend cam s p [] (intensity, col) = (intensity, col)"
| "lights_loop ne blend cam s p (l # ls) (intensity, col) =
     (let intensity' = intensity + calculate_light_intensity s l cam p;
          col' = op_mul ne (blend (light_color l) (material_color (get_material s))) intensity'
      in lights_loop ne blend cam s p ls (intensity', col'))"

fun spheres_loop ::
    "(double \<Rightarrow> double \<Rightarrow> bool) \<Rightarrow> (color \<Rightarrow> color \<Rightarrow> color) \<Rightarrow> camera \<Rightarrow> light list \<Rightarrow> ray
       \<Rightarrow> shape list \<Rightarrow> color \<Rightarrow> color" where
  "spheres_loop ne blend cam lights ry [] col = col"
| "spheres_loop ne blend cam lights ry (s # ss) col =
     (case intersection s ry of
        None \<Rightarrow> spheres_loop ne blend cam lights ry ss col
      | Some p \<Rightarrow>
          spheres_loop ne blend cam lights ry ss
            (snd (lights_loop ne blend cam s p lights (0, col))))"

definition paint_pixel ::
    "(double \<Rightarrow> double \<Rightarrow> bool) \<Rightarrow> (color \<Rightarrow> color \<Rightarrow> color) \<Rightarrow> camera \<Rightarrow> shape list
       \<Rightarrow> light list \<Rightarrow> ray \<Rightarrow> 32 word" where
  "paint_pixel ne blend cam spheres lights ry =
     argb (spheres_loop ne blend cam lights ry spheres green)"

text \<open>
  \<open>window.on_paint\<close>: for every row \<open>y\<close> below the window's height and every column
  \<open>x\<close> below its width, the pixel's colour is stored in \<open>buffer[y * width + x]\<close>.
  \<open>camera.shoot_ray\<close> (\<open>camera.h\<close>, not under src/) is the parameter \<open>shoot_ray\<close>, from
  the pixel's coordinates to its ray. A store beyond the end of the buffer is undefined
  behaviour in C++ and does nothing here.
\<close>

definition paint_row ::
    "(double \<Rightarrow> double \<Rightarrow> bool) \<Rightarrow> (color \<Rightarrow> color \<Rightarrow> color) \<Rightarrow> (nat \<Rightarrow> nat \<Rightarrow> ray) \<Rightarrow> camera
       \<Rightarrow> shape list \<Rightarrow> light list \<Rightarrow> nat \<Rightarrow> nat \<Rightarrow> 32 word list \<Rightarrow> 32 word list" where
  "paint_row ne blend shoot_ray cam spheres lights width y buffer =
     fold (\<lambda>x buf. buf[y * width + x := paint_pixel ne blend cam spheres lights (shoot_ray x y)])
       [0..<width] buffer"

definition on_paint ::
    "(double \<Rightarrow> double \<Rightarrow> bool) \<Rightarrow> (color \<Rightarrow> color \<Rightarrow> color) \<Rightarrow> (nat \<Rightarrow> nat \<Rightarrow> ray) \<Rightarrow> camera
       \<Rightarrow> shape list \<Rightarrow> light list \<Rightarrow> nat \<Rightarrow> nat \<Rightarrow> 32 word list \<Rightarrow> 32 word list" where
  "on_paint ne blend shoot_ray cam spheres lights width height buffer =
     fold (paint_row ne blend shoot_ray cam spheres lights width) [0..<height] buffer"

section \<open>The nearest hit, as the specification words it\<close>




section \<open>A scene on the camera's axis\<close>

text \<open>
  Modelled from the spec: \<open>color::blended\<close> is not under src/, and the spec calls it a
  weighted combination of two colours without giving the weights. Where a concrete blend
  is needed the two colours get equal weights.
\<close>

definition blended_equal_weights :: "color \<Rightarrow> color \<Rightarrow> color" where
  "blended_equal_weights c other =
     \<lparr>col_r = word_of_int ((uint (col_r c) + uint (col_r other)) div 2),
      col_g = word_of_int ((uint (col_g c) + uint (col_g other)) div 2),
      col_b = word_of_int ((uint (col_b c) + uint (col_b other)) div 2),
      col_a = word_of_int ((uint (col_a c) + uint (col_a other)) div 2)\<rparr>"

text \<open>
  The camera of \<open>main\<close> is at the origin and looks along z. The scene has two unit
  spheres on that axis, a red one at distance 3 and a blue one behind it at distance 5,
  one white light of intensity 4 at the camera, and the ray along the axis, which meets
  the red sphere at z = 2 and the blue one at z = 4. A second ray, along x, meets neither.
\<close>

definition origin :: point3 where
  "origin = \<lparr>pt_x = 0, pt_y = 0, pt_z = 0\<rparr>"

definition axis_camera :: camera where
  "axis_camera = \<lparr>camera_position = origin\<rparr>"

definition axis_ray :: ray where
  "axis_ray = \<lparr>ray_position = origin, ray_direction = \<lparr>vec_x = 0, vec_y = 0, vec_z = 1\<rparr>\<rparr>"

definition side_ray :: ray where
  "side_ray = \<lparr>ray_position = origin, ray_direction = \<lparr>vec_x = 1, vec_y = 0, vec_z = 0\<rparr>\<rparr>"

text \<open>A window of two pixels in one row: the first looks along the axis, the second aside.\<close>

definition two_rays :: "nat \<Rightarrow> nat \<Rightarrow> ray" where
  "two_rays x y = (if x = 0 then axis_ray else side_ray)"

definition near_sphere :: shape where
  "near_sphere =
     sphere 1 \<lparr>pt_x = 0, pt_y = 0, pt_z = 3\<rparr>
       (material4 \<lparr>col_r = 255, col_g = 0, col_b = 0, col_a = 255\<rparr> 0 1 0)"

definition far_sphere :: shape where
  "far_sphere =
     sphere 1 \<lparr>pt_x = 0, pt_y = 0, pt_z = 5\<rparr>
       (material4 \<lparr>col_r = 0, col_g = 0, col_b = 255, col_a = 255\<rparr> 0 1 0)"

definition head_light :: light where
  "head_light = \<lparr>light_position = origin, light_intensity = 4, light_color = white\<rparr>"

text \<open>
  A strong light behind the red sphere's front, and a unit sphere at distance 3 whose
  material is all specular (ambient 0, diffuse 0, specular 1) with shininess 1, lit by
  a light of intensity 1 at the camera.
\<close>

definition back_light :: light where
  "back_light =
     \<lparr>light_position = \<lparr>pt_x = 0, pt_y = 0, pt_z = 4\<rparr>, light_intensity = 1000,
      light_color = white\<rparr>"

definition mirror_sphere :: shape where
  "mirror_sphere = sphere 1 \<lparr>pt_x = 0, pt_y = 0, pt_z = 3\<rparr> (material3 0 0 1)"

definition unit_light :: light where
  "unit_light = \<lparr>light_position = origin, light_intensity = 1, light_color = white\<rparr>"

section \<open>Packed and channel views\<close>

lemma color_of_rgba_rgba: "color_of_rgba (rgba c) = c"
proof -
  have "ucast (rgba c) = col_r c"
    unfolding rgba_def by (rule bit_word_eqI) (auto simp: bit_simps dest: bit_imp_le_length)
  moreover have "ucast (drop_bit 8 (rgba c)) = col_g c"
    unfolding rgba_def by (rule bit_word_eqI) (auto simp: bit_simps dest: bit_imp_le_length)
  moreover have "ucast (drop_bit 16 (rgba c)) = col_b c"
    unfolding rgba_def by (rule bit_word_eqI) (auto simp: bit_simps dest: bit_imp_le_length)
  moreover have "ucast (drop_bit 24 (rgba c)) = col_a c"
    unfolding rgba_def by (rule bit_word_eqI) (auto simp: bit_simps dest: bit_imp_le_length)
  ultimately show ?thesis by (simp add: color_of_rgba_def)
qed

lemma rgba_color_of_rgba: "rgba (color_of_rgba w) = w"
  unfolding rgba_def color_of_rgba_def
  apply (rule bit_word_eqI)
  apply (auto simp: bit_simps dest: bit_imp_le_length)
  subgoal for n
    by (cases "n < 8"; cases "n < 16"; cases "n < 24"; simp add: not_less)
  done

lemma rgb_mask: "(0x00FFFFFF :: 32 word) = mask 24"
  by (simp add: mask_eq_exp_minus_1)

lemma col_a_op_not: "col_a (op_not c) = col_a c"
proof -
  have "ucast (drop_bit 24 (rgba c XOR mask 24)) = (ucast (drop_bit 24 (rgba c)) :: uchar)"
    by (rule bit_word_eqI) (auto simp: bit_simps)
  also have "\<dots> = col_a (color_of_rgba (rgba c))"
    by (simp only: color_of_rgba_def color.select_convs)
  also have "\<dots> = col_a c"
    by (simp only: color_of_rgba_rgba)
  finally show ?thesis
    by (simp only: op_not_def color_of_rgba_def rgb_mask color.select_convs)
qed

lemma op_not_op_not: "op_not (op_not c) = c"
  by (simp add: op_not_def rgba_color_of_rgba color_of_rgba_rgba xor.assoc)

section \<open>Saturating channels\<close>

lemma uint_uchar_of_int: "0 \<le> k \<Longrightarrow> k \<le> 255 \<Longrightarrow> uint (word_of_int k :: uchar) = k"
  by (simp add: uint_word_of_int)

lemma uint_uchar_le: "uint (x :: uchar) \<le> 255"
  using uint_lt2p [of x] by simp

lemma add_channel_uint: "uint (add_channel x y) = min 255 (uint x + uint y)"
proof (cases "uint x \<le> 255 - uint y")
  case True
  then have "uint (word_of_int (uint x + uint y) :: uchar) = uint x + uint y"
    by (intro uint_uchar_of_int) simp_all
  with True show ?thesis
    by (simp only: add_channel_def UCHAR_MAX_def if_True)
next
  case False
  have "uint (word_of_int 255 :: uchar) = 255" by simp
  with False show ?thesis
    by (simp only: add_channel_def UCHAR_MAX_def if_False)
qed

lemma sub_channel_uint: "uint (sub_channel x y) = max 0 (uint x - uint y)"
proof (cases "uint x \<ge> uint y")
  case True
  have "uint x - uint y \<le> 255"
    using uint_uchar_le [of x] uint_ge_0 [of y] by linarith
  with True have "uint (word_of_int (uint x - uint y) :: uchar) = uint x - uint y"
    by (intro uint_uchar_of_int) simp_all
  with True show ?thesis
    by (simp only: sub_channel_def if_True)
next
  case False
  then show ?thesis
    by (simp only: sub_channel_def if_False) simp
qed

text \<open>
  C6. Inverting a colour twice gives the colour back, alpha included: \<open>operator~\<close>
  returns the colour whose packed value is the original packed value XOR \<open>0x00FFFFFF\<close>,
  the alpha byte is the same before and after, and the same holds for \<open>inverted\<close> and
  \<open>invert\<close>.
\<close>

theorem invert_involution:
  "rgba (op_not c) = rgba c XOR 0x00FFFFFF
   \<and> col_a (op_not c) = col_a c
   \<and> op_not (op_not c) = c
   \<and> inverted (inverted c) = c
   \<and> invert (invert c) = c"
proof -
  have "rgba (op_not c) = rgba c XOR 0x00FFFFFF"
    by (simp only: op_not_def rgba_color_of_rgba)
  then show ?thesis
    by (simp only: inverted_def invert_def op_not_op_not col_a_op_not simp_thms)
qed

text \<open>
  C8. Every one of the four channels, alpha included, of a sum of two colours is
  \<open>min(255, a + b)\<close> of the operands' channels, and of a difference is
  \<open>max(0, a - b)\<close>: addition and subtraction saturate and never wrap. It holds for
  the compound operators and for the binary ones, which copy and then call them.
\<close>

theorem add_sub_saturate:
  "uint (col_r (op_add x y)) = min 255 (uint (col_r x) + uint (col_r y))
   \<and> uint (col_g (op_add x y)) = min 255 (uint (col_g x) + uint (col_g y))
   \<and> uint (col_b (op_add x y)) = min 255 (uint (col_b x) + uint (col_b y))
   \<and> uint (col_a (op_add x y)) = min 255 (uint (col_a x) + uint (col_a y))
   \<and> uint (col_r (op_sub x y)) = max 0 (uint (col_r x) - uint (col_r y))
   \<and> uint (col_g (op_sub x y)) = max 0 (uint (col_g x) - uint (col_g y))
   \<and> uint (col_b (op_sub x y)) = max 0 (uint (col_b x) - uint (col_b y))
   \<and> uint (col_a (op_sub x y)) = max 0 (uint (col_a x) - uint (col_a y))
   \<and> op_add_assign x y = op_add x y
   \<and> op_sub_assign x y = op_sub x y"
  by (simp add: op_add_def op_add_assign_def op_sub_def op_sub_assign_def
      add_channel_uint sub_channel_uint)

section \<open>Rounding to binary64\<close>

lemma round_even_near: "\<bar>of_int (round_even y) - y\<bar> \<le> 1 / 2"
  unfolding round_even_def Let_def by (auto; linarith)

lemma round_even_nonneg: "0 \<le> y \<Longrightarrow> 0 \<le> round_even y"
  unfolding round_even_def Let_def by (auto; linarith)

lemma binary64_exponent_sound:
  "(2 powi (binary64_exponent x + 52) \<le> \<bar>x\<bar> \<and> \<bar>x\<bar> < 2 powi (binary64_exponent x + 53))
   \<or> binary64_exponent x = - 1074"
  unfolding binary64_exponent_def
  by (auto split: option.split simp: find_Some_iff min_ulp_exponent_def)

lemma binade_unique:
  assumes "(2::real) powi (j + 52) \<le> a" "a < 2 powi (j + 53)"
    and "(2::real) powi (k + 52) \<le> a" "a < 2 powi (k + 53)"
  shows "j = k"
proof (rule ccontr)
  assume "j \<noteq> k"
  then consider "j < k" | "k < j" by linarith
  then show False
  proof cases
    case 1
    then have "(2::real) powi (j + 53) \<le> 2 powi (k + 52)"
      by (intro power_int_increasing) simp_all
    with assms show False by linarith
  next
    case 2
    then have "(2::real) powi (k + 53) \<le> 2 powi (j + 52)"
      by (intro power_int_increasing) simp_all
    with assms show False by linarith
  qed
qed

lemma binary64_exponent_eq:
  assumes "2 powi (k + 52) \<le> \<bar>x\<bar>" "\<bar>x\<bar> < 2 powi (k + 53)" "- 1074 \<le> k" "k \<le> 971"
  shows "binary64_exponent x = k"
proof -
  let ?P = "\<lambda>k. 2 powi (k + 52) \<le> \<bar>x\<bar> \<and> \<bar>x\<bar> < 2 powi (k + 53)"
  let ?ks = "[min_ulp_exponent..max_ulp_exponent]"
  have "k \<in> {min_ulp_exponent..max_ulp_exponent}"
    using assms(3,4)
    by (simp only: min_ulp_exponent_def max_ulp_exponent_def atLeastAtMost_iff simp_thms)
  then have "k \<in> set ?ks" by (simp only: set_upto)
  with assms(1,2) have "find ?P ?ks \<noteq> None"
    by (auto simp: find_None_iff)
  then obtain j where j: "find ?P ?ks = Some j" by auto
  then have "?P j" by (auto simp: find_Some_iff)
  with assms(1,2) have "j = k" by (intro binade_unique [of j "\<bar>x\<bar>" k]) simp_all
  with j show ?thesis by (simp add: binary64_exponent_def)
qed

lemma binary64_eval:
  assumes "2 powi (k + 52) \<le> \<bar>x\<bar>" "\<bar>x\<bar> < 2 powi (k + 53)" "- 1074 \<le> k" "k \<le> 971"
  shows "binary64 x = of_int (round_even (x / 2 powi k)) * 2 powi k"
  using binary64_exponent_eq [OF assms] by (simp add: binary64_def Let_def)

lemma binary64_zero: "binary64 0 = 0"
  by (simp add: binary64_def round_even_def Let_def)

lemma binary64_nonneg: "0 \<le> x \<Longrightarrow> 0 \<le> binary64 x"
  unfolding binary64_def Let_def
  by (intro mult_nonneg_nonneg) (simp_all add: round_even_nonneg less_imp_le)

lemma binary64_error: "\<bar>binary64 x - x\<bar> \<le> \<bar>x\<bar> / 2 ^ 53 + 1 / 2 ^ 1075"
proof -
  define k where "k = binary64_exponent x"
  define u :: real where "u = 2 powi k"
  have u0: "0 < u" by (simp add: u_def)
  have b: "binary64 x = of_int (round_even (x / u)) * u"
    by (simp add: binary64_def u_def k_def Let_def)
  have "\<bar>of_int (round_even (x / u)) - x / u\<bar> \<le> 1 / 2" by (rule round_even_near)
  then have "\<bar>of_int (round_even (x / u)) - x / u\<bar> * u \<le> 1 / 2 * u"
    using u0 by (intro mult_right_mono) simp_all
  moreover have "\<bar>of_int (round_even (x / u)) - x / u\<bar> * u = \<bar>binary64 x - x\<bar>"
  proof -
    have "\<bar>of_int (round_even (x / u)) - x / u\<bar> * u
            = \<bar>(of_int (round_even (x / u)) - x / u) * u\<bar>"
      using u0 by (simp add: abs_mult)
    also have "(of_int (round_even (x / u)) - x / u) * u = binary64 x - x"
      using u0 by (simp add: b algebra_simps)
    finally show ?thesis .
  qed
  ultimately have err: "\<bar>binary64 x - x\<bar> \<le> u / 2" by simp
  have "u / 2 \<le> \<bar>x\<bar> / 2 ^ 53 + 1 / 2 ^ 1075"
  proof -
    from binary64_exponent_sound [of x]
    consider "2 powi (k + 52) \<le> \<bar>x\<bar>" | "k = - 1074" unfolding k_def by blast
    then show ?thesis
    proof cases
      case 1
      have "(2::real) powi (k + 52) = u * 2 ^ 52"
        by (simp add: u_def power_int_add)
      with 1 have "u * 2 ^ 52 \<le> \<bar>x\<bar>" by simp
      then have "u / 2 \<le> \<bar>x\<bar> / 2 ^ 53" by (simp add: field_simps)
      moreover have "(0::real) \<le> 1 / 2 ^ 1075" by simp
      ultimately show ?thesis by linarith
    next
      case 2
      then have "u = 1 / 2 ^ 1074" by (simp add: u_def power_int_minus_divide)
      then have "u / 2 = 1 / 2 ^ 1075" by simp
      moreover have "0 \<le> \<bar>x\<bar> / 2 ^ 53" by simp
      ultimately show ?thesis by linarith
    qed
  qed
  with err show ?thesis by linarith
qed

lemma binary64_bounds:
  assumes "- 1000 \<le> x" and "x \<le> 1000"
  shows "x - 1 / 10 ^ 9 \<le> binary64 x" and "binary64 x \<le> x + 1 / 10 ^ 9"
proof -
  have "\<bar>x\<bar> \<le> 1000" using assms by linarith
  then have "\<bar>x\<bar> / 2 ^ 53 \<le> 1000 / 2 ^ 53" by (intro divide_right_mono) simp_all
  moreover have "(1::real) / 2 ^ 1075 \<le> 1 / 2 ^ 53"
    by (intro divide_left_mono power_increasing) simp_all
  moreover have "(1000::real) / 2 ^ 53 + 1 / 2 ^ 53 \<le> 1 / 10 ^ 9" by simp
  ultimately have "\<bar>binary64 x - x\<bar> \<le> 1 / 10 ^ 9"
    using binary64_error [of x] by linarith
  then show "x - 1 / 10 ^ 9 \<le> binary64 x" and "binary64 x \<le> x + 1 / 10 ^ 9"
    by linarith+
qed

text \<open>Doubles that the examples need: each is its own rounding.\<close>

lemma binary64_values:
  "binary64 (3 / 4) = 3 / 4"
  "binary64 1 = 1"
  "binary64 5 = 5"
  "binary64 10 = 10"
  "binary64 15 = 15"
  "binary64 20 = 20"
  "binary64 (127 / 4) = 127 / 4"
  "binary64 (255 / 4) = 255 / 4"
  "binary64 127 = 127"
  "binary64 255 = 255"
  by (subst binary64_eval [where k = "- 53"], simp_all add: round_even_def)
    (subst binary64_eval [where k = "- 52"], simp_all add: round_even_def,
     subst binary64_eval [where k = "- 50"], simp_all add: round_even_def,
     subst binary64_eval [where k = "- 49"], simp_all add: round_even_def,
     subst binary64_eval [where k = "- 49"], simp_all add: round_even_def,
     subst binary64_eval [where k = "- 48"], simp_all add: round_even_def,
     subst binary64_eval [where k = "- 48"], simp_all add: round_even_def,
     subst binary64_eval [where k = "- 47"], simp_all add: round_even_def,
     subst binary64_eval [where k = "- 46"], simp_all add: round_even_def,
     subst binary64_eval [where k = "- 45"], simp_all add: round_even_def)

text \<open>The doubles of the literals \<open>0.7\<close>, \<open>1.0 / 3.0\<close> and \<open>0.1\<close>.\<close>

lemma binary64_literals:
  "binary64 (7 / 10) = 3152519739159347 / 4503599627370496"
  "binary64 (1 / 3) = 6004799503160661 / 18014398509481984"
  "binary64 (1 / 10) = 3602879701896397 / 36028797018963968"
  by (subst binary64_eval [where k = "- 53"], simp_all add: round_even_def)
    (subst binary64_eval [where k = "- 54"], simp_all add: round_even_def,
     subst binary64_eval [where k = "- 56"], simp_all add: round_even_def)

section \<open>Doubles and channels\<close>

lemma double_of_uchar_nonneg: "0 \<le> double_of_uchar x"
  unfolding double_of_uchar_def by (simp del: of_int_uint)

lemma double_of_uchar_le: "double_of_uchar x \<le> 255"
proof -
  have "real_of_int (uint x) \<le> real_of_int 255"
    using uint_uchar_le [of x] by (simp only: of_int_le_iff)
  then show ?thesis unfolding double_of_uchar_def by (simp del: of_int_uint)
qed

lemma uchar_of_double_uint: "uchar_of_double (double_of_uchar x) = x"
  unfolding uchar_of_double_def trunc_def double_of_uchar_def
  by (simp add: word_of_int_uint del: of_int_uint)

lemma uint_uchar_of_double_int:
  "0 \<le> k \<Longrightarrow> k \<le> 255 \<Longrightarrow> uint (uchar_of_double (of_int k)) = k"
  unfolding uchar_of_double_def trunc_def by (simp add: uint_word_of_int)

section \<open>Multiplication\<close>

lemma mul_channel_trunc:
  assumes "0 \<le> s"
  shows "mul_channel x s = word_of_int (min 255 (trunc (binary64 (double_of_uchar x * s))))"
proof -
  let ?p = "binary64 (double_of_uchar x * s)"
  have "0 \<le> double_of_uchar x * s" using assms double_of_uchar_nonneg by simp
  then have p0: "0 \<le> ?p" by (rule binary64_nonneg)
  show ?thesis
  proof (cases "?p \<le> 255")
    case True
    then have "\<lfloor>?p\<rfloor> \<le> 255" by (simp add: floor_le_iff)
    with True p0 show ?thesis
      by (simp add: mul_channel_def UCHAR_MAX_def uchar_of_double_def trunc_def)
  next
    case False
    then have "255 \<le> \<lfloor>?p\<rfloor>" by (simp add: le_floor_iff)
    with False p0 show ?thesis
      by (simp add: mul_channel_def UCHAR_MAX_def uchar_of_double_def trunc_def)
  qed
qed

lemma mul_channel_zero: "mul_channel 0 s = 0"
  by (simp add: mul_channel_def double_of_uchar_def UCHAR_MAX_def uchar_of_double_def
      trunc_def binary64_zero)

lemma lne_false_nonneg: "\<not> less_than_or_nearly_equal ne s 0 \<Longrightarrow> 0 \<le> s"
  by (simp add: less_than_or_nearly_equal_def)

lemma op_mul_assign_eq:
  "op_mul_assign ne c s =
     (if less_than_or_nearly_equal ne s 0
      then \<lparr>col_r = 0, col_g = 0, col_b = 0, col_a = 0\<rparr>
      else \<lparr>col_r = word_of_int (min 255 (trunc (binary64 (double_of_uchar (col_r c) * s)))),
            col_g = word_of_int (min 255 (trunc (binary64 (double_of_uchar (col_g c) * s)))),
            col_b = word_of_int (min 255 (trunc (binary64 (double_of_uchar (col_b c) * s)))),
            col_a = word_of_int (min 255 (trunc (binary64 (double_of_uchar (col_a c) * s))))\<rparr>)"
proof (cases "less_than_or_nearly_equal ne s 0")
  case True
  then show ?thesis by (simp add: op_mul_assign_def mul_channel_zero)
next
  case False
  then have "0 \<le> s" by (rule lne_false_nonneg)
  with False show ?thesis by (simp add: op_mul_assign_def mul_channel_trunc)
qed

text \<open>
  For a scalar that is an infinity or NaN, every channel becomes 255, whatever the
  colour and whatever \<open>nearly_equal\<close> answers.
\<close>

lemma op_mul_assign_nonfinite_eq:
  "op_mul_assign_nonfinite ne0 c s = Some \<lparr>col_r = 255, col_g = 255, col_b = 255, col_a = 255\<rparr>"
  by (cases s) (simp_all add: op_mul_assign_nonfinite_def mul_channel_nonfinite_def UCHAR_MAX_def)

text \<open>
  The rounding of the product decides the channel: \<open>10 * 0.7\<close> is 7 in binary64 (the
  exact product of 10 and the double 0.7 lies below 7), and \<open>3 * (1.0 / 3.0)\<close> is 1.
\<close>

lemma mul_channel_rounded_products:
  "mul_channel 10 (binary64 (7 / 10)) = 7"
  "mul_channel 3 (binary64 (1 / 3)) = 1"
proof -
  have "binary64 (10 * binary64 (7 / 10)) = 7"
    unfolding binary64_literals
    by (subst binary64_eval [where k = "- 50"]) (simp_all add: round_even_def)
  then show "mul_channel 10 (binary64 (7 / 10)) = 7"
    by (simp add: mul_channel_def double_of_uchar_def UCHAR_MAX_def uchar_of_double_def trunc_def)
next
  have "binary64 (3 * binary64 (1 / 3)) = 1"
    unfolding binary64_literals
    by (subst binary64_eval [where k = "- 53"]) (simp_all add: round_even_def)
  then show "mul_channel 3 (binary64 (1 / 3)) = 1"
    by (simp add: mul_channel_def double_of_uchar_def UCHAR_MAX_def uchar_of_double_def trunc_def)
qed

text \<open>
  C1, as stated, fails. The colour \<open>(1, 1, 1, 1)\<close> times \<open>0.75\<close> (a scalar that is
  not less than or nearly equal to 0): the product \<open>0.75\<close> is cast to \<open>unsigned char\<close>,
  which drops the fraction and gives 0, where rounding gives 1. And the colour
  \<open>(1, 1, 1, 1)\<close> times the negative infinity, a scalar less than 0, has all four
  channels 255 and not 0.
\<close>

theorem op_mul_rounds_counterexample:
  "\<not> less_than_or_nearly_equal (nearly_equal DBL_EPSILON) (3 / 4) 0
   \<and> col_r (op_mul (nearly_equal DBL_EPSILON)
          \<lparr>col_r = 1, col_g = 1, col_b = 1, col_a = 1\<rparr> (3 / 4)) = 0
   \<and> spec_mul_channel 1 (3 / 4) = 1
   \<and> op_mul_assign_nonfinite (\<lambda>s. False)
          \<lparr>col_r = 1, col_g = 1, col_b = 1, col_a = 1\<rparr> Minus_Infinity
       = Some \<lparr>col_r = 255, col_g = 255, col_b = 255, col_a = 255\<rparr>"
  by (simp add: less_than_or_nearly_equal_def nearly_equal_def DBL_EPSILON_def op_mul_def
      op_mul_assign_def mul_channel_def double_of_uchar_def UCHAR_MAX_def
      uchar_of_double_def trunc_def std_round_def spec_mul_channel_def binary64_values
      op_mul_assign_nonfinite_eq)

text \<open>
  C1, amended. For every colour and every finite double scalar, \<open>c * s\<close>, \<open>s * c\<close> and
  \<open>c *= s\<close> give the same colour: all four channels 0 if the scalar is less than or
  nearly equal to 0, and otherwise each channel \<open>min(255, trunc(channel * s))\<close>, where
  \<open>channel * s\<close> is the double product (the exact product rounded to binary64) and
  \<open>trunc\<close> drops its fraction (truncation towards zero) and does not round.
\<close>

theorem op_mul_truncates:
  "op_mul ne c s =
     (if less_than_or_nearly_equal ne s 0
      then \<lparr>col_r = 0, col_g = 0, col_b = 0, col_a = 0\<rparr>
      else \<lparr>col_r = word_of_int (min 255 (trunc (binary64 (double_of_uchar (col_r c) * s)))),
            col_g = word_of_int (min 255 (trunc (binary64 (double_of_uchar (col_g c) * s)))),
            col_b = word_of_int (min 255 (trunc (binary64 (double_of_uchar (col_b c) * s)))),
            col_a = word_of_int (min 255 (trunc (binary64 (double_of_uchar (col_a c) * s))))\<rparr>)
   \<and> op_mul_reflected ne s c = op_mul ne c s
   \<and> op_mul_assign ne c s = op_mul ne c s"
  by (simp only: op_mul_reflected_def op_mul_def op_mul_assign_eq simp_thms)

section \<open>Division and modulo\<close>

text \<open>The rounding of the quotient decides the channel: \<open>1 / 0.1\<close> is 10 in binary64.\<close>

lemma div_channel_rounded_quotient: "div_channel 1 (binary64 (1 / 10)) = 10"
proof -
  have "binary64 (1 / binary64 (1 / 10)) = 10"
    unfolding binary64_literals
    by (subst binary64_eval [where k = "- 49"]) (simp_all add: round_even_def)
  then show ?thesis
    by (simp add: div_channel_def double_of_uchar_def UCHAR_MAX_def uchar_of_double_def
        trunc_def binary64_literals)
qed

text \<open>
  C2. Division and modulo throw \<open>invalid_argument\<close> (the only exception of the model)
  exactly when the divisor is invalid: \<open>color / scalar\<close> and \<open>color /= scalar\<close> when the
  scalar is nearly equal to 0 or negative, \<open>scalar / color\<close> when a channel is 0 or the
  scalar is negative, \<open>color % scalar\<close> and \<open>color %= scalar\<close> when the scalar is 0,
  \<open>scalar % color\<close> when a channel is 0. When a compound operator throws, the colour
  it was called on is unchanged.
\<close>

theorem div_mod_errors:
  "(fst (op_div_assign ne c s) \<noteq> None) = (ne s 0 \<or> s < 0)
   \<and> (fst (op_div_assign ne c s) \<noteq> None \<longrightarrow> snd (op_div_assign ne c s) = c)
   \<and> isl (op_div ne c s) = (ne s 0 \<or> s < 0)
   \<and> isl (op_div_reflected s c)
       = ((col_r c = 0 \<or> col_g c = 0 \<or> col_b c = 0 \<or> col_a c = 0) \<or> s < 0)
   \<and> (fst (op_mod_assign c k) \<noteq> None) = (k = 0)
   \<and> (fst (op_mod_assign c k) \<noteq> None \<longrightarrow> snd (op_mod_assign c k) = c)
   \<and> isl (op_mod c k) = (k = 0)
   \<and> isl (op_mod_reflected k c)
       = (col_r c = 0 \<or> col_g c = 0 \<or> col_b c = 0 \<or> col_a c = 0)"
  by (simp add: op_div_assign_def op_div_def op_div_reflected_def op_mod_assign_def
      op_mod_def op_mod_reflected_def)

theorem div_mod_errors_witness:
  "op_div_assign (nearly_equal DBL_EPSILON)
      \<lparr>col_r = 10, col_g = 20, col_b = 30, col_a = 40\<rparr> (- 2)
     = (Some (invalid_argument ''Division by negative number''),
        \<lparr>col_r = 10, col_g = 20, col_b = 30, col_a = 40\<rparr>)
   \<and> op_mod_assign \<lparr>col_r = 10, col_g = 20, col_b = 30, col_a = 40\<rparr> 0
     = (Some (invalid_argument ''Division by zero''),
        \<lparr>col_r = 10, col_g = 20, col_b = 30, col_a = 40\<rparr>)
   \<and> op_div_assign (nearly_equal DBL_EPSILON)
      \<lparr>col_r = 10, col_g = 20, col_b = 30, col_a = 40\<rparr> 2
     = (None, \<lparr>col_r = 5, col_g = 10, col_b = 15, col_a = 20\<rparr>)
   \<and> op_mod_assign \<lparr>col_r = 10, col_g = 20, col_b = 30, col_a = 40\<rparr> 7
     = (None, \<lparr>col_r = 3, col_g = 6, col_b = 2, col_a = 5\<rparr>)"
  using div_mod_errors [of "nearly_equal DBL_EPSILON"
      "\<lparr>col_r = 10, col_g = 20, col_b = 30, col_a = 40\<rparr>" "- 2" 0]
  by (simp add: op_div_assign_def op_mod_assign_def nearly_equal_def DBL_EPSILON_def
      div_channel_def double_of_uchar_def UCHAR_MAX_def uchar_of_double_def trunc_def
      binary64_values)

section \<open>Grayscale\<close>

text \<open>The sum that the code computes is within a hundred-thousandth of the exact weighted sum.\<close>

lemma weight_product_near:
  assumes "- 1 \<le> w" and "w \<le> 1"
  shows "w * double_of_uchar x - 1 / 1000000 \<le> binary64 (binary64 w * double_of_uchar x)"
    and "binary64 (binary64 w * double_of_uchar x) \<le> w * double_of_uchar x + 1 / 1000000"
proof -
  let ?d = "double_of_uchar x"
  have d: "0 \<le> ?d" "?d \<le> 255"
    by (rule double_of_uchar_nonneg, rule double_of_uchar_le)
  from assms have "- 1000 \<le> w" "w \<le> 1000" by linarith+
  then have "w - 1 / 10 ^ 9 \<le> binary64 w" "binary64 w \<le> w + 1 / 10 ^ 9"
    by (rule binary64_bounds)+
  then have a: "w - 1 / 1000000000 \<le> binary64 w" "binary64 w \<le> w + 1 / 1000000000"
    by simp_all
  have "binary64 w * ?d \<le> (w + 1 / 1000000000) * ?d"
    using a(2) d(1) by (rule mult_right_mono)
  then have hi: "binary64 w * ?d \<le> w * ?d + 1 / 1000000000 * ?d"
    by (simp add: algebra_simps)
  have "(w - 1 / 1000000000) * ?d \<le> binary64 w * ?d"
    using a(1) d(1) by (rule mult_right_mono)
  then have lo: "w * ?d - 1 / 1000000000 * ?d \<le> binary64 w * ?d"
    by (simp add: algebra_simps)
  have wd: "w * ?d \<le> 1 * ?d" "- 1 * ?d \<le> w * ?d"
    using assms d(1) by (intro mult_right_mono; simp)+
  have "- 1000 \<le> binary64 w * ?d" "binary64 w * ?d \<le> 1000"
    using hi lo wd d by linarith+
  then have "binary64 w * ?d - 1 / 10 ^ 9 \<le> binary64 (binary64 w * ?d)"
      "binary64 (binary64 w * ?d) \<le> binary64 w * ?d + 1 / 10 ^ 9"
    by (rule binary64_bounds)+
  then have p: "binary64 w * ?d - 1 / 1000000000 \<le> binary64 (binary64 w * ?d)"
      "binary64 (binary64 w * ?d) \<le> binary64 w * ?d + 1 / 1000000000"
    by simp_all
  show "w * ?d - 1 / 1000000 \<le> binary64 (binary64 w * ?d)"
    using p lo d by linarith
  show "binary64 (binary64 w * ?d) \<le> w * ?d + 1 / 1000000"
    using p hi d by linarith
qed

lemma luma_near:
  "exact_luma c - 1 / 100000 \<le> luma c" "luma c \<le> exact_luma c + 1 / 100000"
proof -
  let ?r = "double_of_uchar (col_r c)" and ?g = "double_of_uchar (col_g c)"
    and ?b = "double_of_uchar (col_b c)"
  define pr where "pr = binary64 (binary64 (299 / 1000) * ?r)"
  define pg where "pg = binary64 (binary64 (587 / 1000) * ?g)"
  define pb where "pb = binary64 (binary64 (114 / 1000) * ?b)"
  have r: "299 / 1000 * ?r - 1 / 1000000 \<le> pr" "pr \<le> 299 / 1000 * ?r + 1 / 1000000"
    unfolding pr_def by (rule weight_product_near; simp)+
  have g: "587 / 1000 * ?g - 1 / 1000000 \<le> pg" "pg \<le> 587 / 1000 * ?g + 1 / 1000000"
    unfolding pg_def by (rule weight_product_near; simp)+
  have b: "114 / 1000 * ?b - 1 / 1000000 \<le> pb" "pb \<le> 114 / 1000 * ?b + 1 / 1000000"
    unfolding pb_def by (rule weight_product_near; simp)+
  have d: "0 \<le> ?r" "?r \<le> 255" "0 \<le> ?g" "?g \<le> 255" "0 \<le> ?b" "?b \<le> 255"
    by (simp_all add: double_of_uchar_nonneg double_of_uchar_le)
  have "- 1000 \<le> pr + pg" "pr + pg \<le> 1000"
    using r g d by linarith+
  then have "pr + pg - 1 / 10 ^ 9 \<le> binary64 (pr + pg)"
      "binary64 (pr + pg) \<le> pr + pg + 1 / 10 ^ 9"
    by (rule binary64_bounds)+
  then have s1: "pr + pg - 1 / 1000000000 \<le> binary64 (pr + pg)"
      "binary64 (pr + pg) \<le> pr + pg + 1 / 1000000000"
    by simp_all
  have "- 1000 \<le> binary64 (pr + pg) + pb" "binary64 (pr + pg) + pb \<le> 1000"
    using s1 r g b d by linarith+
  then have "binary64 (pr + pg) + pb - 1 / 10 ^ 9 \<le> binary64 (binary64 (pr + pg) + pb)"
      "binary64 (binary64 (pr + pg) + pb) \<le> binary64 (pr + pg) + pb + 1 / 10 ^ 9"
    by (rule binary64_bounds)+
  then have s2: "binary64 (pr + pg) + pb - 1 / 1000000000 \<le> binary64 (binary64 (pr + pg) + pb)"
      "binary64 (binary64 (pr + pg) + pb) \<le> binary64 (pr + pg) + pb + 1 / 1000000000"
    by simp_all
  have l: "luma c = binary64 (binary64 (pr + pg) + pb)"
    by (simp add: luma_def pr_def pg_def pb_def)
  have e: "exact_luma c = 299 / 1000 * ?r + 587 / 1000 * ?g + 114 / 1000 * ?b"
    by (simp add: exact_luma_def)
  show "exact_luma c - 1 / 100000 \<le> luma c"
    unfolding l e using s1 s2 r g b by linarith
  show "luma c \<le> exact_luma c + 1 / 100000"
    unfolding l e using s1 s2 r g b by linarith
qed

lemma exact_luma_range: "0 \<le> exact_luma c" "exact_luma c \<le> 255"
proof -
  have d: "0 \<le> double_of_uchar (col_r c)" "double_of_uchar (col_r c) \<le> 255"
    "0 \<le> double_of_uchar (col_g c)" "double_of_uchar (col_g c) \<le> 255"
    "0 \<le> double_of_uchar (col_b c)" "double_of_uchar (col_b c) \<le> 255"
    by (simp_all add: double_of_uchar_nonneg double_of_uchar_le)
  have e: "exact_luma c = 299 / 1000 * double_of_uchar (col_r c)
      + 587 / 1000 * double_of_uchar (col_g c) + 114 / 1000 * double_of_uchar (col_b c)"
    by (simp add: exact_luma_def)
  show "0 \<le> exact_luma c" unfolding e using d by linarith
  show "exact_luma c \<le> 255" unfolding e using d by linarith
qed

lemma luma_nonneg: "0 \<le> luma c"
  unfolding luma_def
  by (intro binary64_nonneg add_nonneg_nonneg mult_nonneg_nonneg double_of_uchar_nonneg) simp_all

lemma std_round_range:
  assumes "0 \<le> x" "x < 255 + 1 / 2"
  shows "double_of_uchar (uchar_of_double (std_round x)) = std_round x"
proof -
  have r: "std_round x = of_int \<lfloor>x + 1 / 2\<rfloor>" using assms by (simp add: std_round_def)
  have "0 \<le> \<lfloor>x + 1 / 2\<rfloor>" using assms by simp
  moreover have "\<lfloor>x + 1 / 2\<rfloor> \<le> 255" using assms by (simp add: floor_le_iff)
  ultimately have "uint (uchar_of_double (of_int \<lfloor>x + 1 / 2\<rfloor>)) = \<lfloor>x + 1 / 2\<rfloor>"
    by (rule uint_uchar_of_double_int)
  then show ?thesis by (simp only: r double_of_uchar_def)
qed

lemma grayscale_channels:
  "grayscale c = c\<lparr>col_r := uchar_of_double (std_round (luma c)),
                   col_g := uchar_of_double (std_round (luma c)),
                   col_b := uchar_of_double (std_round (luma c))\<rparr>"
  by (simp only: grayscale_def luma_def Let_def)

lemma std_round_near_int:
  assumes "0 \<le> k" and "\<bar>x - of_int k\<bar> < 1 / 2"
  shows "std_round x = of_int k"
proof -
  from assms(2) have lo: "of_int k - 1 / 2 < x" and hi: "x < of_int k + 1 / 2"
    by linarith+
  show ?thesis
  proof (cases "0 \<le> x")
    case True
    have "\<lfloor>x + 1 / 2\<rfloor> = k"
      using lo hi by (simp add: floor_eq_iff)
    with True show ?thesis by (simp add: std_round_def)
  next
    case False
    have "real_of_int k < 1 / 2" using lo False by linarith
    then have "k < 1" by linarith
    with assms(1) have k0: "k = 0" by simp
    have "\<lfloor>- x + 1 / 2\<rfloor> = 0"
      using lo False k0 by (simp add: floor_eq_iff)
    with False k0 show ?thesis by (simp add: std_round_def)
  qed
qed

text \<open>
  The grays of the true grays and of pure red, green and blue do not depend on the
  rounding of the arithmetic: an error of up to 1/8 in the weighted sum leaves them as
  they are.
\<close>

lemma gray_values_stable:
  assumes "- (1 / 8) \<le> e" and "e \<le> 1 / 8"
  shows "uchar_of_double (std_round (exact_luma \<lparr>col_r = v, col_g = v, col_b = v, col_a = al\<rparr> + e)) = v"
    and "uchar_of_double (std_round (exact_luma \<lparr>col_r = 255, col_g = 0, col_b = 0, col_a = al\<rparr> + e)) = 76"
    and "uchar_of_double (std_round (exact_luma \<lparr>col_r = 0, col_g = 255, col_b = 0, col_a = al\<rparr> + e)) = 150"
    and "uchar_of_double (std_round (exact_luma \<lparr>col_r = 0, col_g = 0, col_b = 255, col_a = al\<rparr> + e)) = 29"
proof -
  have "exact_luma \<lparr>col_r = v, col_g = v, col_b = v, col_a = al\<rparr> = of_int (uint v)"
    unfolding exact_luma_def double_of_uchar_def by (simp add: algebra_simps del: of_int_uint)
  moreover have "\<bar>of_int (uint v) + e - of_int (uint v)\<bar> < 1 / 2"
    using assms by linarith
  ultimately have "std_round (exact_luma \<lparr>col_r = v, col_g = v, col_b = v, col_a = al\<rparr> + e)
      = of_int (uint v)"
    by (simp only:) (rule std_round_near_int, simp_all)
  then show "uchar_of_double (std_round (exact_luma \<lparr>col_r = v, col_g = v, col_b = v, col_a = al\<rparr> + e)) = v"
    using uchar_of_double_uint [of v] by (simp only: double_of_uchar_def)
next
  have "exact_luma \<lparr>col_r = 255, col_g = 0, col_b = 0, col_a = al\<rparr> - of_int 76 = 49 / 200"
    by (simp add: exact_luma_def double_of_uchar_def)
  with assms have "\<bar>exact_luma \<lparr>col_r = 255, col_g = 0, col_b = 0, col_a = al\<rparr> + e - of_int 76\<bar> < 1 / 2"
    by linarith
  then have "std_round (exact_luma \<lparr>col_r = 255, col_g = 0, col_b = 0, col_a = al\<rparr> + e) = of_int 76"
    by (intro std_round_near_int) simp_all
  then show "uchar_of_double (std_round (exact_luma \<lparr>col_r = 255, col_g = 0, col_b = 0, col_a = al\<rparr> + e)) = 76"
    by (simp add: uchar_of_double_def trunc_def)
next
  have "exact_luma \<lparr>col_r = 0, col_g = 255, col_b = 0, col_a = al\<rparr> - of_int 150 = - (63 / 200)"
    by (simp add: exact_luma_def double_of_uchar_def)
  with assms have "\<bar>exact_luma \<lparr>col_r = 0, col_g = 255, col_b = 0, col_a = al\<rparr> + e - of_int 150\<bar> < 1 / 2"
    by linarith
  then have "std_round (exact_luma \<lparr>col_r = 0, col_g = 255, col_b = 0, col_a = al\<rparr> + e) = of_int 150"
    by (intro std_round_near_int) simp_all
  then show "uchar_of_double (std_round (exact_luma \<lparr>col_r = 0, col_g = 255, col_b = 0, col_a = al\<rparr> + e)) = 150"
    by (simp add: uchar_of_double_def trunc_def)
next
  have "exact_luma \<lparr>col_r = 0, col_g = 0, col_b = 255, col_a = al\<rparr> - of_int 29 = 7 / 100"
    by (simp add: exact_luma_def double_of_uchar_def)
  with assms have "\<bar>exact_luma \<lparr>col_r = 0, col_g = 0, col_b = 255, col_a = al\<rparr> + e - of_int 29\<bar> < 1 / 2"
    by linarith
  then have "std_round (exact_luma \<lparr>col_r = 0, col_g = 0, col_b = 255, col_a = al\<rparr> + e) = of_int 29"
    by (intro std_round_near_int) simp_all
  then show "uchar_of_double (std_round (exact_luma \<lparr>col_r = 0, col_g = 0, col_b = 255, col_a = al\<rparr> + e)) = 29"
    by (simp add: uchar_of_double_def trunc_def)
qed

lemma luma_error_small:
  "- (1 / 8) \<le> luma c - exact_luma c" "luma c - exact_luma c \<le> 1 / 8"
  using luma_near [of c] by linarith+

lemma gray_values:
  "uchar_of_double (std_round (luma \<lparr>col_r = v, col_g = v, col_b = v, col_a = al\<rparr>)) = v"
  "uchar_of_double (std_round (luma \<lparr>col_r = 255, col_g = 0, col_b = 0, col_a = al\<rparr>)) = 76"
  "uchar_of_double (std_round (luma \<lparr>col_r = 0, col_g = 255, col_b = 0, col_a = al\<rparr>)) = 150"
  "uchar_of_double (std_round (luma \<lparr>col_r = 0, col_g = 0, col_b = 255, col_a = al\<rparr>)) = 29"
  using gray_values_stable(1)
      [OF luma_error_small [of "\<lparr>col_r = v, col_g = v, col_b = v, col_a = al\<rparr>"], of v al]
    gray_values_stable(2)
      [OF luma_error_small [of "\<lparr>col_r = 255, col_g = 0, col_b = 0, col_a = al\<rparr>"], of al]
    gray_values_stable(3)
      [OF luma_error_small [of "\<lparr>col_r = 0, col_g = 255, col_b = 0, col_a = al\<rparr>"], of al]
    gray_values_stable(4)
      [OF luma_error_small [of "\<lparr>col_r = 0, col_g = 0, col_b = 255, col_a = al\<rparr>"], of al]
  by simp_all

lemma grayscale_gray:
  "grayscale \<lparr>col_r = v, col_g = v, col_b = v, col_a = al\<rparr>
     = \<lparr>col_r = v, col_g = v, col_b = v, col_a = al\<rparr>"
  by (simp add: grayscale_channels gray_values)

lemma gray_red:
  "grayscale \<lparr>col_r = 255, col_g = 0, col_b = 0, col_a = al\<rparr>
     = \<lparr>col_r = 76, col_g = 76, col_b = 76, col_a = al\<rparr>"
  by (simp add: grayscale_channels gray_values)

lemma gray_green:
  "grayscale \<lparr>col_r = 0, col_g = 255, col_b = 0, col_a = al\<rparr>
     = \<lparr>col_r = 150, col_g = 150, col_b = 150, col_a = al\<rparr>"
  by (simp add: grayscale_channels gray_values)

lemma gray_blue:
  "grayscale \<lparr>col_r = 0, col_g = 0, col_b = 255, col_a = al\<rparr>
     = \<lparr>col_r = 29, col_g = 29, col_b = 29, col_a = al\<rparr>"
  by (simp add: grayscale_channels gray_values)

text \<open>
  Where the exact weighted sum is halfway between two integers the rounding of the
  arithmetic decides: for (0, 36, 12) the exact sum is 22.5, the sum the code computes
  lies just below it, and the gray is 22.
\<close>

lemma binary64_weights:
  "binary64 0.587 = 2643612981266481 / 4503599627370496"
  "binary64 0.114 = 8214565720323785 / 72057594037927936"
  by (subst binary64_eval [where k = "- 53"], simp_all add: round_even_def)
    (subst binary64_eval [where k = "- 56"], simp_all add: round_even_def)

lemma grayscale_tie:
  "exact_luma \<lparr>col_r = 0, col_g = 36, col_b = 12, col_a = al\<rparr> = 45 / 2"
  "luma \<lparr>col_r = 0, col_g = 36, col_b = 12, col_a = al\<rparr>
     = 6333186975989759 / 281474976710656"
  "grayscale \<lparr>col_r = 0, col_g = 36, col_b = 12, col_a = al\<rparr>
     = \<lparr>col_r = 22, col_g = 22, col_b = 22, col_a = al\<rparr>"
proof -
  show "exact_luma \<lparr>col_r = 0, col_g = 36, col_b = 12, col_a = al\<rparr> = 45 / 2"
    by (simp add: exact_luma_def double_of_uchar_def)
  have d: "double_of_uchar 0 = 0" "double_of_uchar 36 = 36" "double_of_uchar 12 = 12"
    by (simp_all add: double_of_uchar_def)
  have pr: "binary64 (binary64 0.299 * 0) = 0"
    by (simp add: binary64_zero)
  have pg: "binary64 (binary64 0.587 * 36) = 2974064603924791 / 140737488355328"
    unfolding binary64_weights
    by (subst binary64_eval [where k = "- 48"]) (simp_all add: round_even_def)
  have pb: "binary64 (binary64 0.114 * 12) = 6160924290242839 / 4503599627370496"
    unfolding binary64_weights
    by (subst binary64_eval [where k = "- 52"]) (simp_all add: round_even_def)
  have s1: "binary64 (0 + 2974064603924791 / 140737488355328)
      = 2974064603924791 / 140737488355328"
    by (subst binary64_eval [where k = "- 48"]) (simp_all add: round_even_def)
  have s2: "binary64 (2974064603924791 / 140737488355328 + 6160924290242839 / 4503599627370496)
      = 6333186975989759 / 281474976710656"
    by (subst binary64_eval [where k = "- 48"]) (simp_all add: round_even_def)
  show l: "luma \<lparr>col_r = 0, col_g = 36, col_b = 12, col_a = al\<rparr>
     = 6333186975989759 / 281474976710656"
    unfolding luma_def by (simp only: color.select_convs d pr pg pb s1 s2)
  show "grayscale \<lparr>col_r = 0, col_g = 36, col_b = 12, col_a = al\<rparr>
     = \<lparr>col_r = 22, col_g = 22, col_b = 22, col_a = al\<rparr>"
    by (subst grayscale_channels) (simp add: l std_round_def uchar_of_double_def trunc_def)
qed

text \<open>
  C7. \<open>grayscale\<close> sets red, green and blue to the same value,
  \<open>round(0.299 r + 0.587 g + 0.114 b)\<close> as the code's double arithmetic computes it
  from the channels the colour had before the call, and keeps alpha. A gray
  \<open>r = g = b = v\<close> is kept, and pure red, green and blue become the grays 76, 150
  and 29.
\<close>

theorem grayscale_luma:
  "double_of_uchar (col_r (grayscale c))
     = std_round
         (binary64
            (binary64 (binary64 (binary64 0.299 * double_of_uchar (col_r c))
                       + binary64 (binary64 0.587 * double_of_uchar (col_g c)))
             + binary64 (binary64 0.114 * double_of_uchar (col_b c))))
   \<and> col_g (grayscale c) = col_r (grayscale c)
   \<and> col_b (grayscale c) = col_r (grayscale c)
   \<and> col_a (grayscale c) = col_a c
   \<and> grayscaled c = grayscale c
   \<and> grayscale \<lparr>col_r = v, col_g = v, col_b = v, col_a = al\<rparr>
       = \<lparr>col_r = v, col_g = v, col_b = v, col_a = al\<rparr>
   \<and> grayscale \<lparr>col_r = 255, col_g = 0, col_b = 0, col_a = al\<rparr>
       = \<lparr>col_r = 76, col_g = 76, col_b = 76, col_a = al\<rparr>
   \<and> grayscale \<lparr>col_r = 0, col_g = 255, col_b = 0, col_a = al\<rparr>
       = \<lparr>col_r = 150, col_g = 150, col_b = 150, col_a = al\<rparr>
   \<and> grayscale \<lparr>col_r = 0, col_g = 0, col_b = 255, col_a = al\<rparr>
       = \<lparr>col_r = 29, col_g = 29, col_b = 29, col_a = al\<rparr>"
proof -
  have "luma c < 255 + 1 / 2"
    using luma_near(2) [of c] exact_luma_range(2) [of c] by linarith
  with luma_nonneg [of c]
  have "double_of_uchar (uchar_of_double (std_round (luma c))) = std_round (luma c)"
    by (rule std_round_range)
  then have "double_of_uchar (col_r (grayscale c)) = std_round (luma c)"
    by (simp add: grayscale_channels)
  then have "double_of_uchar (col_r (grayscale c))
     = std_round
         (binary64
            (binary64 (binary64 (binary64 0.299 * double_of_uchar (col_r c))
                       + binary64 (binary64 0.587 * double_of_uchar (col_g c)))
             + binary64 (binary64 0.114 * double_of_uchar (col_b c))))"
    by (simp only: luma_def)
  moreover have "col_g (grayscale c) = col_r (grayscale c)"
    "col_b (grayscale c) = col_r (grayscale c)" "col_a (grayscale c) = col_a c"
    by (simp_all add: grayscale_channels)
  ultimately show ?thesis
    by (simp only: grayscaled_def grayscale_gray gray_red gray_green gray_blue simp_thms)
qed

section \<open>Materials\<close>

text \<open>
  C4. Diffuse and specular add up to 1 after each constructor and after \<open>set_diffuse\<close>
  and \<open>set_specular\<close> with any input, on any material; the stored coefficient is the
  input clamped to [0, 1], and the other setters leave both coefficients as they are.
\<close>

theorem material_invariant:
  "get_diffuse material_default + get_specular material_default = 1
   \<and> get_diffuse (material3 am d sh) + get_specular (material3 am d sh) = 1
   \<and> get_diffuse (material4 c am d sh) + get_specular (material4 c am d sh) = 1
   \<and> get_diffuse (set_diffuse d m) + get_specular (set_diffuse d m) = 1
   \<and> get_diffuse (set_specular sp m) + get_specular (set_specular sp m) = 1
   \<and> get_diffuse (set_diffuse d m) = clamp01 d
   \<and> get_specular (set_specular sp m) = clamp01 sp
   \<and> 0 \<le> clamp01 d \<and> clamp01 d \<le> 1
   \<and> get_diffuse (set_ambient am m) = get_diffuse m
   \<and> get_specular (set_ambient am m) = get_specular m
   \<and> get_diffuse (set_shininess sh m) = get_diffuse m
   \<and> get_specular (set_shininess sh m) = get_specular m"
  by (simp add: material_default_def material3_def material4_def set_diffuse_def
      set_specular_def set_ambient_def set_shininess_def clamp01_def)

section \<open>Light intensity\<close>

lemmas geometry_defs = vector_to_def dot_def scaled_def vec_length_def normalized_def
  mirror_def point_at_def sphere_def sphere_intersection_def inverse_square_law_def

lemmas scene_defs = origin_def axis_camera_def axis_ray_def side_ray_def near_sphere_def
  far_sphere_def head_light_def back_light_def mirror_sphere_def unit_light_def
  material4_def material3_def set_shininess_def set_diffuse_def set_ambient_def
  material_default_def clamp01_def white_def

text \<open>
  C5. If the dot product of the surface normal at the point with the normalised vector
  from the point to the light is negative, \<open>calculate_light_intensity\<close> returns 0,
  whatever the light's distance and intensity, the camera and the material.
\<close>

theorem light_behind_zero:
  assumes "dot (normal_at shp p) (normalized (vector_to p (light_position lgt))) < 0"
  shows "calculate_light_intensity shp lgt cam p = 0"
  using assms by (simp add: calculate_light_intensity_def)

theorem light_behind_zero_witness:
  "dot (normal_at near_sphere \<lparr>pt_x = 0, pt_y = 0, pt_z = 2\<rparr>)
       (normalized (vector_to \<lparr>pt_x = 0, pt_y = 0, pt_z = 2\<rparr> (light_position back_light))) < 0
   \<and> calculate_light_intensity near_sphere back_light axis_camera
         \<lparr>pt_x = 0, pt_y = 0, pt_z = 2\<rparr> = 0"
proof -
  have behind: "dot (normal_at near_sphere \<lparr>pt_x = 0, pt_y = 0, pt_z = 2\<rparr>)
       (normalized (vector_to \<lparr>pt_x = 0, pt_y = 0, pt_z = 2\<rparr> (light_position back_light))) < 0"
    by (simp add: geometry_defs scene_defs)
  from behind light_behind_zero [OF behind, of axis_camera] show ?thesis
    by (simp only: simp_thms)
qed

text \<open>
  C10. The result of \<open>calculate_light_intensity\<close> is at most 1 but can be negative.
  For the all-specular sphere with the odd shininess 1, lit from the camera, the angle
  of the light is 1 (not negative), the reflection points away from the viewing
  direction (dot product -1), and the function returns -1/4.
\<close>

theorem light_intensity_unclamped_below:
  "calculate_light_intensity shp lgt cam p \<le> 1
   \<and> get_ambient (get_material mirror_sphere) = 0
   \<and> get_diffuse (get_material mirror_sphere) = 0
   \<and> get_specular (get_material mirror_sphere) = 1
   \<and> get_shininess (get_material mirror_sphere) = 1
   \<and> dot (normal_at mirror_sphere \<lparr>pt_x = 0, pt_y = 0, pt_z = 2\<rparr>)
        (normalized (vector_to \<lparr>pt_x = 0, pt_y = 0, pt_z = 2\<rparr> (light_position unit_light))) = 1
   \<and> dot (mirror (normalized (vector_to \<lparr>pt_x = 0, pt_y = 0, pt_z = 2\<rparr> (light_position unit_light)))
               (normal_at mirror_sphere \<lparr>pt_x = 0, pt_y = 0, pt_z = 2\<rparr>))
          (normalized (vector_to (camera_position axis_camera) \<lparr>pt_x = 0, pt_y = 0, pt_z = 2\<rparr>)) = - 1
   \<and> calculate_light_intensity mirror_sphere unit_light axis_camera
         \<lparr>pt_x = 0, pt_y = 0, pt_z = 2\<rparr> = - 1 / 4
   \<and> calculate_light_intensity mirror_sphere unit_light axis_camera
         \<lparr>pt_x = 0, pt_y = 0, pt_z = 2\<rparr> < 0"
proof -
  have "calculate_light_intensity shp lgt cam p \<le> 1"
    by (simp add: calculate_light_intensity_def Let_def)
  moreover have "calculate_light_intensity mirror_sphere unit_light axis_camera
         \<lparr>pt_x = 0, pt_y = 0, pt_z = 2\<rparr> = - 1 / 4"
    by (simp add: calculate_light_intensity_def geometry_defs scene_defs std_pow_def)
  ultimately show ?thesis
    by (simp add: geometry_defs scene_defs)
qed

section \<open>The pixel loop\<close>



lemma spheres_loop_no_hit:
  "\<forall>t \<in> set ss. intersection t ry = None \<Longrightarrow> spheres_loop ne blend cam lights ry ss col = col"
  by (induction ss arbitrary: col) simp_all

subsection \<open>The buffer\<close>

lemma fold_update_length:
  "length (fold (\<lambda>x buf. buf[g x := f x]) xs buf) = length buf"
  by (induction xs arbitrary: buf) simp_all

lemma fold_update_upt:
  "base + n \<le> length buf \<Longrightarrow>
   fold (\<lambda>x b. b[base + x := f x]) [0..<n] buf ! i
     = (if base \<le> i \<and> i < base + n then f (i - base) else buf ! i)"
proof (induction n)
  case 0
  then show ?case by auto
next
  case (Suc n)
  let ?b = "fold (\<lambda>x b. b[base + x := f x]) [0..<n] buf"
  have len: "length ?b = length buf" by (rule fold_update_length)
  have IH: "?b ! i = (if base \<le> i \<and> i < base + n then f (i - base) else buf ! i)"
    using Suc by simp
  show ?case
  proof (cases "i = base + n")
    case True
    with Suc.prems len show ?thesis by simp
  next
    case False
    with IH show ?thesis by (auto simp: nth_list_update)
  qed
qed

lemma paint_row_length: "length (paint_row ne blend shoot_ray cam spheres lights w y buf) = length buf"
  unfolding paint_row_def by (rule fold_update_length)

lemma paint_row_nth:
  "y * w + w \<le> length buf \<Longrightarrow>
   paint_row ne blend shoot_ray cam spheres lights w y buf ! i
     = (if y * w \<le> i \<and> i < y * w + w then paint_pixel ne blend cam spheres lights (shoot_ray (i - y * w) y)
        else buf ! i)"
  unfolding paint_row_def by (rule fold_update_upt)

lemma on_paint_length: "length (on_paint ne blend shoot_ray cam spheres lights w h buf) = length buf"
  unfolding on_paint_def by (induction h) (simp_all add: paint_row_length)

lemma on_paint_nth:
  "w * h \<le> length buf \<Longrightarrow>
   on_paint ne blend shoot_ray cam spheres lights w h buf ! i
     = (if i < w * h then paint_pixel ne blend cam spheres lights (shoot_ray (i mod w) (i div w)) else buf ! i)"
proof (induction h)
  case 0
  then show ?case by (simp add: on_paint_def)
next
  case (Suc h)
  let ?b = "on_paint ne blend shoot_ray cam spheres lights w h buf"
  have len: "length ?b = length buf" by (rule on_paint_length)
  have IH: "?b ! i = (if i < w * h then paint_pixel ne blend cam spheres lights (shoot_ray (i mod w) (i div w)) else buf ! i)"
    using Suc by simp
  have step: "on_paint ne blend shoot_ray cam spheres lights w (Suc h) buf = paint_row ne blend shoot_ray cam spheres lights w h ?b"
    by (simp add: on_paint_def)
  have "h * w + w \<le> length ?b" using Suc.prems len by (simp add: algebra_simps)
  then have row: "paint_row ne blend shoot_ray cam spheres lights w h ?b ! i
     = (if h * w \<le> i \<and> i < h * w + w then paint_pixel ne blend cam spheres lights (shoot_ray (i - h * w) h)
        else ?b ! i)"
    by (rule paint_row_nth)
  show ?case
  proof (cases "h * w \<le> i \<and> i < h * w + w")
    case True
    then have d: "i div w = h"
      by (intro div_nat_eqI) (simp_all add: algebra_simps)
    have "i mod w = i - i div w * w"
      by (rule modulo_nat_def)
    with d have "i div w = h" "i mod w = i - h * w" by simp_all
    with True show ?thesis by (simp add: step row algebra_simps)
  next
    case False
    then show ?thesis using IH by (auto simp add: step row algebra_simps)
  qed
qed

subsection \<open>The scene on the axis\<close>


lemma side_misses:
  "intersection near_sphere side_ray = None"
  "intersection far_sphere side_ray = None"
  by (simp_all add: geometry_defs scene_defs)










lemma paint_pixel_default:
  assumes "\<forall>s \<in> set spheres. intersection s ry = None"
  shows "paint_pixel ne blend cam spheres lights ry = argb green"
  using assms by (simp add: paint_pixel_def spheres_loop_no_hit)

lemma on_paint_pixel:
  assumes "x < width" and "y < height" and "width * height \<le> length buffer"
  shows "on_paint ne blend shoot_ray cam spheres lights width height buffer ! (y * width + x)
           = paint_pixel ne blend cam spheres lights (shoot_ray x y)"
proof -
  have "y * width + x < y * width + width" using assms(1) by simp
  also have "\<dots> = width * Suc y" by simp
  also have "\<dots> \<le> width * height" using assms(2) by (intro mult_le_mono2) simp
  finally have "y * width + x < width * height" .
  with assms(1,3) show ?thesis by (simp add: on_paint_nth)
qed




text \<open>
  C9. For every pixel whose ray intersects no surface, the value stored in the buffer is
  the packed value of \<open>color::green()\<close>, the colour (0, 255, 0) with which the loop
  over the surfaces starts, and not black.
\<close>

theorem on_paint_no_hit:
  assumes "x < width" and "y < height" and "width * height \<le> length buffer"
    and "\<forall>s \<in> set spheres. intersection s (shoot_ray x y) = None"
  shows "on_paint ne blend shoot_ray cam spheres lights width height buffer ! (y * width + x)
           = argb green
         \<and> green = \<lparr>col_r = 0, col_g = 255, col_b = 0, col_a = 255\<rparr>
         \<and> argb green = 0xFF00FF00"
  using assms by (simp add: on_paint_pixel paint_pixel_default) (simp add: green_def argb_def)

theorem on_paint_no_hit_witness:
  "(1::nat) < 2 \<and> (0::nat) < 1 \<and> 2 * 1 \<le> length [0, 0 :: 32 word]
   \<and> intersection near_sphere (two_rays 1 0) = None
   \<and> intersection far_sphere (two_rays 1 0) = None
   \<and> on_paint (nearly_equal DBL_EPSILON) blended_equal_weights two_rays axis_camera
        [near_sphere, far_sphere] [head_light] 2 1 [0, 0] ! (0 * 2 + 1) = 0xFF00FF00"
  using on_paint_no_hit [where x = 1 and y = 0 and width = 2 and height = 1
      and buffer = "[0, 0]" and shoot_ray = two_rays
      and spheres = "[near_sphere, far_sphere]"
      and ne = "nearly_equal DBL_EPSILON" and blend = blended_equal_weights
      and cam = axis_camera and lights = "[head_light]"]
  by (simp add: two_rays_def side_misses)

end
